theory Spec2Isabelle
  imports Complex_Main
begin

section \<open>Exceptions\<close>

text \<open>
  The Python exceptions that the modelled code can raise. \<open>TypeError\<close> is the one
  \<open>calc_n_points\<close> raises itself (``No proper filter coefficients: len(a) = len(b) = 1 !'',
  the specification's \<open>DegenerateFilter\<close>); \<open>IndexError\<close> is what the read \<open>self.aa[0]\<close>
  raises on an empty coefficient array; \<open>ZeroDivisionError\<close> is what Python's float division
  raises on a zero divisor.
\<close>

datatype error = TypeError | IndexError | ZeroDivisionError

section \<open>Length of the filter response: \<open>calc_n_points\<close> (plot\_impz.py)\<close>

text \<open>
  Coefficients are modelled as reals: the code only measures the lengths of the two
  coefficient arrays and compares denominator coefficients with zero.

  \<open>np_any xs\<close> is \<open>np.any(xs)\<close>: some element is nonzero; it is \<open>False\<close> on the empty array.
\<close>

definition np_any :: "real list \<Rightarrow> bool" where
  "np_any xs = list_ex (\<lambda>x. x \<noteq> 0) xs"

text \<open>
  Lines 239 to 253 of plot\_impz.py: the value of the local variable \<open>IIR\<close>, or the
  exception raised before it is assigned. The slice \<open>self.aa[1:]\<close> is \<open>drop 1 aa\<close> and never
  fails; Python's \<open>and\<close> evaluates \<open>self.aa[0] != 0\<close> only when \<open>not np.any(self.aa[1:])\<close>
  holds, and that read raises \<open>IndexError\<close> on an empty array.
\<close>

definition IIR_flag :: "real list \<Rightarrow> real list \<Rightarrow> error + bool" where
  "IIR_flag aa bb =
     (if length aa = 1 then
        (if length bb = 1 then Inl TypeError
         else Inr False)
      else
        (if length bb = 1 then Inr True
         else if \<not> np_any (drop 1 aa) then
           (case aa of
              [] \<Rightarrow> Inl IndexError
            | a0 # _ \<Rightarrow> if a0 \<noteq> 0 then Inr False else Inr True)
         else Inr True))"

text \<open>
  The whole of \<open>calc_n_points\<close>: \<open>N_user\<close> and the result are Python integers, and
  \<open>len(self.bb)\<close> is the length of the numerator.
\<close>

definition calc_n_points :: "real list \<Rightarrow> real list \<Rightarrow> int \<Rightarrow> error + int" where
  "calc_n_points aa bb N_user =
     (case IIR_flag aa bb of
        Inl e \<Rightarrow> Inl e
      | Inr IIR \<Rightarrow>
          Inr (if N_user = 0 then
                 (if IIR then 100 else min (int (length bb)) 100)
               else N_user))"

subsection \<open>The classification as the specification words it\<close>

datatype filter_class = FIR | IIR

text \<open>
  The priority order of the specification's \<open>resolve_length\<close>, written from its sentences:
  \<open>None\<close> is its error \<open>DegenerateFilter\<close>. On a denominator without a first coefficient
  the condition ``the first denominator coefficient is nonzero'' does not hold.
\<close>

definition resolve_class_spec :: "real list \<Rightarrow> real list \<Rightarrow> filter_class option" where
  "resolve_class_spec denominator numerator =
     (if length denominator = 1 \<and> length numerator = 1 then None
      else if length denominator = 1 then Some FIR
      else if length numerator = 1 then Some IIR
      else if list_all (\<lambda>c. c = 0) (tl denominator)
              \<and> (case denominator of [] \<Rightarrow> False | c0 # _ \<Rightarrow> c0 \<noteq> 0)
           then Some FIR
      else Some IIR)"

section \<open>Floating-point values\<close>

text \<open>
  numpy computes with IEEE doubles. The model keeps their special values and abstracts
  from rounding: a finite double is the real number it stands for (\<open>Fin\<close>), and
  \<open>PInf\<close>, \<open>NInf\<close> and \<open>NaN\<close> are \<open>+inf\<close>, \<open>-inf\<close> and \<open>nan\<close>. numpy's default error
  state only warns on a division by zero or an invalid operation and returns the special
  value, so none of the operations below raises. A zero is taken as \<open>+0.0\<close>.
\<close>

datatype npfloat = Fin real | PInf | NInf | NaN

fun np_sgn :: "npfloat \<Rightarrow> real" where
  "np_sgn (Fin x) = sgn x"
| "np_sgn PInf = 1"
| "np_sgn NInf = - 1"
| "np_sgn NaN = 0"

text \<open>The infinity of a given sign; a sign of zero marks an invalid operation.\<close>

definition inf_of :: "real \<Rightarrow> npfloat" where
  "inf_of s = (if s = 0 then NaN else if 0 < s then PInf else NInf)"

fun np_add :: "npfloat \<Rightarrow> npfloat \<Rightarrow> npfloat" where
  "np_add NaN _ = NaN"
| "np_add _ NaN = NaN"
| "np_add (Fin x) (Fin y) = Fin (x + y)"
| "np_add PInf NInf = NaN"
| "np_add NInf PInf = NaN"
| "np_add PInf _ = PInf"
| "np_add _ PInf = PInf"
| "np_add NInf _ = NInf"
| "np_add _ NInf = NInf"

fun np_mul :: "npfloat \<Rightarrow> npfloat \<Rightarrow> npfloat" where
  "np_mul NaN _ = NaN"
| "np_mul _ NaN = NaN"
| "np_mul (Fin x) (Fin y) = Fin (x * y)"
| "np_mul a b = inf_of (np_sgn a * np_sgn b)"

fun np_div :: "npfloat \<Rightarrow> npfloat \<Rightarrow> npfloat" where
  "np_div NaN _ = NaN"
| "np_div _ NaN = NaN"
| "np_div (Fin x) (Fin y) = (if y = 0 then inf_of (sgn x) else Fin (x / y))"
| "np_div (Fin x) _ = Fin 0"
| "np_div a (Fin y) = inf_of (np_sgn a * (if y < 0 then - 1 else 1))"
| "np_div _ _ = NaN"

definition np_square :: "npfloat \<Rightarrow> npfloat" where
  "np_square x = np_mul x x"

text \<open>\<open>np.sum\<close> of a one-dimensional array; the sum of the empty array is \<open>0.0\<close>.\<close>

definition np_sum :: "npfloat list \<Rightarrow> npfloat" where
  "np_sum xs = foldr np_add xs (Fin 0)"

text \<open>\<open>np.log10\<close>: \<open>-inf\<close> at zero and \<open>nan\<close> below zero.\<close>

fun np_log10 :: "npfloat \<Rightarrow> npfloat" where
  "np_log10 (Fin x) = (if 0 < x then Fin (log 10 x) else if x = 0 then NInf else NaN)"
| "np_log10 PInf = PInf"
| "np_log10 NInf = NaN"
| "np_log10 NaN = NaN"

text \<open>\<open>np.maximum\<close> propagates \<open>nan\<close>.\<close>

fun np_maximum :: "npfloat \<Rightarrow> npfloat \<Rightarrow> npfloat" where
  "np_maximum NaN _ = NaN"
| "np_maximum _ NaN = NaN"
| "np_maximum PInf _ = PInf"
| "np_maximum _ PInf = PInf"
| "np_maximum NInf b = b"
| "np_maximum a NInf = a"
| "np_maximum (Fin x) (Fin y) = Fin (max x y)"

text \<open>The absolute value of a real and of a complex number (\<open>hypot\<close> of its parts).\<close>

fun np_abs :: "npfloat \<Rightarrow> npfloat" where
  "np_abs (Fin x) = Fin \<bar>x\<bar>"
| "np_abs PInf = PInf"
| "np_abs NInf = PInf"
| "np_abs NaN = NaN"

definition np_hypot :: "npfloat \<Rightarrow> npfloat \<Rightarrow> npfloat" where
  "np_hypot a b =
     (if a = PInf \<or> a = NInf \<or> b = PInf \<or> b = NInf then PInf
      else (case (a, b) of
              (Fin x, Fin y) \<Rightarrow> Fin (sqrt (x\<^sup>2 + y\<^sup>2))
            | _ \<Rightarrow> NaN))"

text \<open>
  The expression \<open>np.maximum(20 * np.log10(x), bottom)\<close> on one element, which plot\_impz.py
  (lines 179 and 181) and plot\_fft\_win.py (lines 283 and 288) each write out.
\<close>

definition log_bottom :: "npfloat \<Rightarrow> real \<Rightarrow> npfloat" where
  "log_bottom x bottom = np_maximum (np_mul (Fin 20) (np_log10 x)) (Fin bottom)"

section \<open>The numeric half of \<open>draw_impz\<close> (plot\_impz.py)\<close>

text \<open>
  The model starts where the response \<open>h\<close> has been computed (line 160; \<open>impz\<close> lives in
  pyfda\_lib, outside these sources) and takes \<open>h\<close> as a list of complex numbers; the
  widget reads before it and the plotting after it are not modelled.

  Line 170: \<open>np.any(np.iscomplex(h))\<close>. \<open>np.iscomplex\<close> is true at an element whose
  imaginary part is not zero.
\<close>

definition np_iscomplex :: "complex \<Rightarrow> bool" where
  "np_iscomplex z = (Im z \<noteq> 0)"

record impz_plot =
  cmplx :: bool
  h_plot :: "npfloat list"
  h_i_plot :: "npfloat list option"
  bottom :: real

text \<open>
  Lines 170 to 175: \<open>self.cmplx\<close>, and the series \<open>h\<close> and \<open>h_i\<close> after them. \<open>h_i\<close> is
  assigned only when \<open>self.cmplx\<close> holds. When it does not hold every element of \<open>h\<close> has
  a zero imaginary part, so \<open>h\<close> is the list of its real parts in both cases.
\<close>

definition split_cmplx :: "complex list \<Rightarrow> bool \<times> real list \<times> real list option" where
  "split_cmplx h =
     (let cmplx = list_ex np_iscomplex h
      in if cmplx then (cmplx, map Re h, Some (map Im h))
         else (cmplx, map Re h, None))"

text \<open>
  Lines 170 to 184: \<open>chkLog\<close> is the state of the check box ``Log.'' (the local
  variable \<open>log\<close>) and \<open>ledLogBottom\<close> the number in the text field for the lower limit.
\<close>

definition draw_impz :: "complex list \<Rightarrow> bool \<Rightarrow> real \<Rightarrow> impz_plot" where
  "draw_impz h chkLog ledLogBottom =
     (case split_cmplx h of
        (c, h_r, h_i) \<Rightarrow>
          if chkLog then
            \<lparr>cmplx = c,
             h_plot = map (\<lambda>x. log_bottom (np_abs (Fin x)) ledLogBottom) h_r,
             h_i_plot = map_option (map (\<lambda>x. log_bottom (np_abs (Fin x)) ledLogBottom)) h_i,
             bottom = ledLogBottom\<rparr>
          else
            \<lparr>cmplx = c,
             h_plot = map Fin h_r,
             h_i_plot = map_option (map Fin) h_i,
             bottom = 0\<rparr>)"

section \<open>The window and its spectrum: \<open>calc_win\<close> and \<open>update_view\<close> (plot\_fft\_win.py)\<close>

subsection \<open>numpy's Fourier helpers\<close>

text \<open>
  \<open>fft(a, n)\<close> crops or zero-pads \<open>a\<close> to \<open>n\<close> points and returns the discrete Fourier
  transform \<open>A[k] = sum_j a[j] exp(-2 pi i j k / n)\<close>. The model computes each bin by this
  sum, real and imaginary part apart, and \<open>np.abs\<close> of the bin as the \<open>hypot\<close> of the two.
\<close>

definition zero_pad :: "npfloat list \<Rightarrow> nat \<Rightarrow> npfloat list" where
  "zero_pad a n = take n a @ replicate (n - length a) (Fin 0)"

definition fft_re :: "npfloat list \<Rightarrow> nat \<Rightarrow> nat \<Rightarrow> npfloat" where
  "fft_re a n k =
     np_sum (map (\<lambda>j. np_mul (zero_pad a n ! j)
                         (Fin (cos (2 * pi * real j * real k / real n)))) [0..<n])"

definition fft_im :: "npfloat list \<Rightarrow> nat \<Rightarrow> nat \<Rightarrow> npfloat" where
  "fft_im a n k =
     np_sum (map (\<lambda>j. np_mul (zero_pad a n ! j)
                         (Fin (- sin (2 * pi * real j * real k / real n)))) [0..<n])"

definition abs_fft :: "npfloat list \<Rightarrow> nat \<Rightarrow> npfloat list" where
  "abs_fft a n = map (\<lambda>k. np_hypot (fft_re a n k) (fft_im a n k)) [0..<n]"

text \<open>\<open>fftshift\<close> rolls a one-dimensional array by \<open>n // 2\<close> places.\<close>

definition fftshift :: "'a list \<Rightarrow> 'a list" where
  "fftshift xs = drop ((length xs + 1) div 2) xs @ take ((length xs + 1) div 2) xs"

text \<open>
  \<open>fftfreq(n, d)\<close> computes \<open>val = 1.0 / (n * d)\<close> and returns the integers
  \<open>0, ..., (n-1)//2, -(n//2), ..., -1\<close> times \<open>val\<close>. With Python numbers the division
  raises \<open>ZeroDivisionError\<close> when \<open>n * d\<close> is zero.
\<close>

definition fftfreq_results :: "nat \<Rightarrow> real \<Rightarrow> real list" where
  "fftfreq_results n d =
     map (\<lambda>k. real_of_int k * (1 / (real n * d)))
       ([0 .. (int n - 1) div 2] @ [- (int n div 2) .. - 1])"

definition fftfreq :: "nat \<Rightarrow> real \<Rightarrow> error + real list" where
  "fftfreq n d =
     (if real n * d = 0 then Inl ZeroDivisionError
      else Inr (fftfreq_results n d))"

subsection \<open>\<open>calc_win\<close>\<close>

text \<open>
  The attributes of the widget that \<open>calc_win\<close> assigns.
\<close>

record fft_win =
  self_N :: nat
  self_t :: "nat list"
  self_win :: "npfloat list"
  self_nenbw :: npfloat
  self_scale :: npfloat
  self_F :: "real list"
  self_Win :: "npfloat list"

text \<open>
  \<open>fb.fil[0]['win_params']\<close>: nothing, one number, or a sequence of numbers.
\<close>

datatype win_params = NoParams | Scalar real | Params "real list"

text \<open>
  Lines 239 to 244: the extra positional arguments the window function is called with.
  \<open>not params\<close> holds for \<open>None\<close>, for an empty sequence and for the number zero.
\<close>

fun win_args :: "win_params \<Rightarrow> real list" where
  "win_args NoParams = []"
| "win_args (Scalar p) = (if p = 0 then [] else [p])"
| "win_args (Params ps) = ps"

text \<open>
  \<open>calc_win\<close> from line 237 on, with \<open>self.N\<close> already read from the widgets. The window
  function \<open>getattr(win, fb.fil[0]['win_fnct'])\<close> of scipy is the parameter \<open>win_fnct\<close>: it
  takes the length and the extra arguments and returns the samples or raises. \<open>chk_norm_f\<close>
  is the state of the check box ``Norm'' and \<open>f_S\<close> is \<open>fb.fil[0]['f_S']\<close>, a Python number,
  so that \<open>1. / f_S\<close> raises \<open>ZeroDivisionError\<close> at zero. The result is the exception
  raised, or the attributes as they are when \<open>calc_win\<close> returns.
\<close>

definition calc_win ::
  "(nat \<Rightarrow> real list \<Rightarrow> error + real list) \<Rightarrow> nat \<Rightarrow> win_params \<Rightarrow> bool \<Rightarrow> real
     \<Rightarrow> error + fft_win" where
  "calc_win win_fnct N params chk_norm_f f_S =
     (case win_fnct N (win_args params) of
        Inl e \<Rightarrow> Inl e
      | Inr w \<Rightarrow>
          let win = map Fin w;
              nenbw = np_div (np_mul (Fin (real N)) (np_sum (map np_square win)))
                             (np_square (np_sum win));
              scale = np_div (Fin (real N)) (np_sum win);
              win' = (if chk_norm_f then map (\<lambda>x. np_mul x scale) win else win)
          in if f_S = 0 then Inl ZeroDivisionError
             else
               (case fftfreq (N * 8) (1 / f_S) of
                  Inl e \<Rightarrow> Inl e
                | Inr freqs \<Rightarrow>
                    Inr \<lparr>self_N = N,
                         self_t = [0..<N],
                         self_win = win',
                         self_nenbw = nenbw,
                         self_scale = scale,
                         self_F = fftshift freqs,
                         self_Win = map (\<lambda>m. np_div m (Fin (real N)))
                                      (fftshift (abs_fft win' (N * 8)))\<rparr>))"

text \<open>
  The rectangular window of the specification, \<open>family="boxcar"\<close>: scipy's \<open>boxcar(M)\<close>,
  which is \<open>np.ones(M)\<close> whatever its optional argument \<open>sym\<close> is.
\<close>

definition boxcar :: "nat \<Rightarrow> real list \<Rightarrow> error + real list" where
  "boxcar M args = Inr (replicate M 1)"


subsection \<open>\<open>update_view\<close>\<close>

text \<open>
  Lines 282 to 290: the two series handed to the plots, the window over \<open>self.t\<close> and the
  spectrum over \<open>self.F\<close>. \<open>chk_log_t\<close> and \<open>chk_log_f\<close> are the two check boxes ``Log'',
  \<open>bottom_t\<close> and \<open>bottom_f\<close> the two lower limits.
\<close>

definition update_view ::
  "fft_win \<Rightarrow> bool \<Rightarrow> real \<Rightarrow> bool \<Rightarrow> real \<Rightarrow> npfloat list \<times> npfloat list" where
  "update_view self chk_log_t bottom_t chk_log_f bottom_f =
     (if chk_log_t then map (\<lambda>x. log_bottom x bottom_t) (self_win self)
      else self_win self,
      if chk_log_f then map (\<lambda>x. log_bottom x bottom_f) (self_Win self)
      else self_Win self)"

subsection \<open>The display transform as the specification words it\<close>

text \<open>
  The specification's \<open>to_display\<close>, written from its sentence: when \<open>log\<close> is true
  (\<open>log_flag\<close>) every element becomes \<open>max(20 log10(|value| + eps), floor_db)\<close>, when it is
  false the series is returned as it is. The guard \<open>eps\<close> is a parameter: the
  specification does not give its value.
\<close>

definition to_display_spec :: "real \<Rightarrow> real list \<Rightarrow> bool \<Rightarrow> real \<Rightarrow> real list" where
  "to_display_spec eps series log_flag floor_db =
     (if log_flag then map (\<lambda>v. max (20 * log 10 (\<bar>v\<bar> + eps)) floor_db) series
      else series)"

section \<open>Properties of \<open>calc_n_points\<close>\<close>

lemma np_any_iff: "np_any xs \<longleftrightarrow> \<not> list_all (\<lambda>c. c = 0) xs"
  by (induction xs) (simp_all add: np_any_def)

text \<open>
  C1 (as stated, refuted). The claim quantifies over every pair of coefficient sequences
  and lets the priority order end in ``otherwise it is IIR''. With an empty denominator and
  a numerator of two coefficients the code reaches \<open>self.aa[0]\<close> and raises \<open>IndexError\<close>,
  where the priority order of the specification answers IIR.
\<close>

theorem IIR_flag_empty_denominator_counterexample:
  "IIR_flag [] [1, 2] = Inl IndexError \<and> resolve_class_spec [] [1, 2] = Some IIR"
  by (simp add: IIR_flag_def resolve_class_spec_def np_any_def)

text \<open>
  C1 (amended). For every pair of coefficient sequences whose denominator is not empty,
  the outcome of lines 239 to 253 is the specification's priority order: the error when
  both sequences have length 1, else FIR when the denominator has length 1, else IIR when
  the numerator has length 1, else FIR when every denominator coefficient after the first
  is zero and the first is nonzero, else IIR.
\<close>

theorem IIR_flag_priority_order:
  "aa \<noteq> [] \<Longrightarrow>
   IIR_flag aa bb =
     (case resolve_class_spec aa bb of
        None \<Rightarrow> Inl TypeError
      | Some FIR \<Rightarrow> Inr False
      | Some IIR \<Rightarrow> Inr True)"
  by (cases aa) (simp_all add: IIR_flag_def resolve_class_spec_def np_any_iff)

theorem IIR_flag_priority_order_witness:
  "[1, 0] \<noteq> ([] :: real list) \<and> resolve_class_spec [1, 0] [1, 2] = Some FIR
   \<and> IIR_flag [1, 0] [1, 2] = Inr False"
  using IIR_flag_priority_order [of "[1, 0]" "[1, 2]"]
  by (simp add: resolve_class_spec_def)

text \<open>
  C2 (as stated, refuted). An empty denominator under the numerator \<open>[1, 2]\<close> is not the
  degenerate case (the two lengths are 0 and 2), and the requested length 7 is positive;
  \<open>calc_n_points\<close> raises \<open>IndexError\<close> at \<open>self.aa[0]\<close> and returns no length.
\<close>

theorem calc_n_points_empty_denominator_counterexample:
  "\<not> (length ([] :: real list) = 1 \<and> length [1, 2 :: real] = 1) \<and> (0::int) < 7
   \<and> calc_n_points [] [1, 2] 7 = Inl IndexError"
  by (simp add: calc_n_points_def IIR_flag_def np_any_def)

text \<open>
  C2 (amended). For every filter whose denominator is not empty and which is not
  degenerate (not both sequences of length 1), the classification succeeds; a requested
  length of 0 resolves to \<open>min(len(numerator), 100)\<close> when the filter is classified FIR and
  to 100 when it is classified IIR, and a positive requested length is returned as it is,
  whatever the classification. Numerator \<open>[1,1,1]\<close> over denominator \<open>[1]\<close> resolves to 3,
  numerator \<open>[1]\<close> over denominator \<open>[1,-0.5]\<close> to 100.
\<close>

theorem calc_n_points_length:
  "(aa \<noteq> [] \<and> \<not> (length aa = 1 \<and> length bb = 1) \<longrightarrow>
      (\<exists>c. IIR_flag aa bb = Inr c
           \<and> calc_n_points aa bb 0 = Inr (if c then 100 else min (int (length bb)) 100))
      \<and> (0 < N_user \<longrightarrow> calc_n_points aa bb N_user = Inr N_user))
   \<and> (IIR_flag aa bb = Inr False \<longrightarrow>
        calc_n_points aa bb 0 = Inr (min (int (length bb)) 100))
   \<and> (IIR_flag aa bb = Inr True \<longrightarrow> calc_n_points aa bb 0 = Inr 100)
   \<and> calc_n_points [1] [1, 1, 1] 0 = Inr 3
   \<and> calc_n_points [1, - 0.5] [1] 0 = Inr 100"
  by (cases aa) (auto simp add: calc_n_points_def IIR_flag_def)

theorem calc_n_points_length_witness:
  "[1] \<noteq> ([] :: real list) \<and> \<not> (length [1 :: real] = 1 \<and> length [1, 1, 1 :: real] = 1)
   \<and> [1, - 0.5] \<noteq> ([] :: real list) \<and> \<not> (length [1, - 0.5 :: real] = 1 \<and> length [1 :: real] = 1)
   \<and> (0::int) < 7
   \<and> IIR_flag [1] [1, 1, 1] = Inr False \<and> IIR_flag [1, - 0.5] [1] = Inr True
   \<and> calc_n_points [1] [1, 1, 1] 0 = Inr 3
   \<and> calc_n_points [1, - 0.5] [1] 0 = Inr 100
   \<and> calc_n_points [1] [1, 1, 1] 7 = Inr 7
   \<and> calc_n_points [1, - 0.5] [1] 7 = Inr 7"
  using calc_n_points_length [of "[1]" "[1, 1, 1]" 7]
    calc_n_points_length [of "[1, - 0.5]" "[1]" 7]
  by (simp add: IIR_flag_def)

text \<open>
  C3. \<open>calc_n_points\<close> raises its \<open>TypeError\<close> (the specification's \<open>DegenerateFilter\<close>)
  exactly when numerator and denominator both have length 1. The error is decided by the
  length tests of lines 239 to 242, which run before the length is computed: it does not
  depend on the requested length, and no other pair of coefficient sequences raises it.
\<close>

theorem calc_n_points_TypeError_iff:
  "(calc_n_points aa bb N_user = Inl TypeError) = (length aa = 1 \<and> length bb = 1)
   \<and> (IIR_flag aa bb = Inl TypeError) = (length aa = 1 \<and> length bb = 1)
   \<and> calc_n_points [1] [1] N_user = Inl TypeError"
  by (auto simp add: calc_n_points_def IIR_flag_def split: sum.splits list.splits)

text \<open>
  C10. A denominator of length 1 under a numerator of more than one coefficient is
  classified FIR whatever its single coefficient is, zero included: denominator \<open>[0.0]\<close>
  with numerator \<open>[1, 2]\<close> is auto-sized to \<open>min(2, 100) = 2\<close> and raises nothing. The test
  that the first coefficient is nonzero decides the classification only for a denominator
  of more than one element (whose other coefficients are all zero).
\<close>

theorem calc_n_points_single_denominator_unchecked:
  "(length aa = 1 \<and> 1 < length bb \<longrightarrow>
      IIR_flag aa bb = Inr False
      \<and> calc_n_points aa bb 0 = Inr (min (int (length bb)) 100))
   \<and> calc_n_points [0] [1, 2] 0 = Inr 2
   \<and> (1 < length aa \<and> 1 < length bb \<and> \<not> np_any (drop 1 aa) \<longrightarrow>
        IIR_flag aa bb = Inr (aa ! 0 = 0))"
  by (auto simp add: calc_n_points_def IIR_flag_def split: list.splits)

theorem calc_n_points_single_denominator_unchecked_witness:
  "length [0::real] = 1 \<and> 1 < length [1, 2::real]
   \<and> IIR_flag [0] [1, 2] = Inr False
   \<and> calc_n_points [0] [1, 2] 0 = Inr 2
   \<and> 1 < length [0, 0::real] \<and> \<not> np_any (drop 1 [0, 0])
   \<and> IIR_flag [0, 0] [1, 2] = Inr True
   \<and> IIR_flag [3, 0] [1, 2] = Inr False"
  using calc_n_points_single_denominator_unchecked [of "[0]" "[1, 2]"]
    calc_n_points_single_denominator_unchecked [of "[0, 0]" "[1, 2]"]
    calc_n_points_single_denominator_unchecked [of "[3, 0]" "[1, 2]"]
  by (simp add: np_any_def)

section \<open>Properties of \<open>calc_win\<close>\<close>

subsection \<open>Helper lemmas\<close>

lemma inf_of_simps [simp]:
  "inf_of 0 = NaN" "0 < s \<Longrightarrow> inf_of s = PInf" "s < 0 \<Longrightarrow> inf_of s = NInf"
  by (simp_all add: inf_of_def)

lemma np_sum_Fin: "np_sum (map Fin xs) = Fin (sum_list xs)"
  by (induction xs) (simp_all add: np_sum_def)

lemma np_square_Fin: "map np_square (map Fin w) = map Fin (map (\<lambda>x. x\<^sup>2) w)"
  by (simp add: np_square_def power2_eq_square)

lemma fftfreq_Inr: "0 < N \<Longrightarrow> f_S \<noteq> 0 \<Longrightarrow> fftfreq (N * 8) (1 / f_S) = Inr (fftfreq_results (N * 8) (1 / f_S))"
  by (simp add: fftfreq_def)

lemma calc_win_Inr:
  assumes "win_fnct N (win_args params) = Inr w" "0 < N" "f_S \<noteq> 0"
  shows "calc_win win_fnct N params chk_norm_f f_S =
     Inr \<lparr>self_N = N, self_t = [0..<N],
          self_win = (if chk_norm_f
                      then map (\<lambda>x. np_mul (Fin x) (np_div (Fin (real N)) (Fin (sum_list w)))) w
                      else map Fin w),
          self_nenbw = np_div (Fin (real N * (\<Sum>x\<leftarrow>w. x\<^sup>2))) (Fin ((sum_list w)\<^sup>2)),
          self_scale = np_div (Fin (real N)) (Fin (sum_list w)),
          self_F = fftshift (fftfreq_results (N * 8) (1 / f_S)),
          self_Win = map (\<lambda>m. np_div m (Fin (real N)))
             (fftshift (abs_fft (if chk_norm_f
                      then map (\<lambda>x. np_mul (Fin x) (np_div (Fin (real N)) (Fin (sum_list w)))) w
                      else map Fin w) (N * 8)))\<rparr>"
proof -
  have sq: "np_sum (map np_square (map Fin w)) = Fin (\<Sum>x\<leftarrow>w. x\<^sup>2)"
    by (simp only: np_square_Fin np_sum_Fin)
  have sq2: "np_square (Fin x) = Fin (x\<^sup>2)" for x
    by (simp add: np_square_def power2_eq_square)
  show ?thesis
    unfolding calc_win_def Let_def assms(1) sum.case sq np_sum_Fin sq2 fftfreq_Inr[OF assms(2,3)]
    using assms(3) by (simp add: comp_def)
qed

lemma length_fftshift [simp]: "length (fftshift xs) = length xs"
  by (simp add: fftshift_def)

lemma length_abs_fft [simp]: "length (abs_fft a n) = n"
  by (simp add: abs_fft_def)










lemma sum_squares_zero_iff: "(\<Sum>x\<leftarrow>w. x\<^sup>2) = 0 \<longleftrightarrow> list_all (\<lambda>x. x = 0) (w :: real list)"
proof (induction w)
  case Nil
  then show ?case by simp
next
  case (Cons a w)
  have "0 \<le> (\<Sum>x\<leftarrow>w. x\<^sup>2)" by (rule sum_list_nonneg) auto
  then have "a\<^sup>2 + (\<Sum>x\<leftarrow>w. x\<^sup>2) = 0 \<longleftrightarrow> a = 0 \<and> (\<Sum>x\<leftarrow>w. x\<^sup>2) = 0"
    by (smt (verit) zero_le_power2 power2_eq_iff_nonneg zero_eq_power2)
  with Cons show ?case by simp
qed

lemma log_bottom_abs:
  "log_bottom (Fin \<bar>x\<bar>) b = Fin (if x = 0 then b else max (20 * log 10 \<bar>x\<bar>) b)"
  by (simp add: log_bottom_def)

lemma log_bottom_nonneg:
  "0 \<le> x \<Longrightarrow> log_bottom (Fin x) b = Fin (if x = 0 then b else max (20 * log 10 x) b)"
  by (simp add: log_bottom_def)

subsection \<open>The metrics\<close>

text \<open>
  C4. Let the window function return the samples \<open>w\<close> for a length \<open>N \<ge> 1\<close> and a
  nonzero sample rate. Whether the check box ``Norm'' is set or not, \<open>calc_win\<close> returns the
  same two metrics, computed from \<open>w\<close> as the window function returned it: \<open>self.scale\<close>
  (the coherent gain) is the float quotient of \<open>N\<close> by the sum of \<open>w\<close>, and \<open>self.nenbw\<close> the
  float quotient of \<open>N\<close> times the sum of the squared samples by the square of the sum. Where
  the sum is not zero these are the real numbers \<open>N / sum w\<close> and
  \<open>N * sum (w^2) / (sum w)^2\<close>.
\<close>

theorem calc_win_metrics:
  assumes "win_fnct N (win_args params) = Inr w" and "0 < N" and "f_S \<noteq> 0"
  shows "\<exists>r_norm r_raw.
      calc_win win_fnct N params True f_S = Inr r_norm
    \<and> calc_win win_fnct N params False f_S = Inr r_raw
    \<and> self_scale r_norm = self_scale r_raw
    \<and> self_nenbw r_norm = self_nenbw r_raw
    \<and> self_scale r_raw = np_div (Fin (real N)) (Fin (sum_list w))
    \<and> self_nenbw r_raw = np_div (Fin (real N * (\<Sum>x\<leftarrow>w. x\<^sup>2))) (Fin ((sum_list w)\<^sup>2))
    \<and> (sum_list w \<noteq> 0 \<longrightarrow>
          self_scale r_raw = Fin (real N / sum_list w)
        \<and> self_nenbw r_raw = Fin (real N * (\<Sum>x\<leftarrow>w. x\<^sup>2) / (sum_list w)\<^sup>2))"
  unfolding calc_win_Inr[where win_fnct = win_fnct and w = w, OF assms] by simp

theorem calc_win_metrics_witness:
  "(\<lambda>M args. Inr [1, 2, 1]) (3::nat) (win_args NoParams) = (Inr [1, 2, 1] :: error + real list)
   \<and> (0::nat) < 3 \<and> (1::real) \<noteq> 0
   \<and> (\<exists>r_norm r_raw.
        calc_win (\<lambda>M args. Inr [1, 2, 1]) 3 NoParams True 1 = Inr r_norm
      \<and> calc_win (\<lambda>M args. Inr [1, 2, 1]) 3 NoParams False 1 = Inr r_raw
      \<and> self_scale r_norm = Fin (3 / 4) \<and> self_nenbw r_norm = Fin (9 / 8)
      \<and> self_scale r_raw = Fin (3 / 4) \<and> self_nenbw r_raw = Fin (9 / 8))"
proof -
  have h: "(\<lambda>M args. Inr [1, 2, 1]) (3::nat) (win_args NoParams) = (Inr [1, 2, 1] :: error + real list)"
    by simp
  from calc_win_metrics [of "\<lambda>M args. Inr [1, 2, 1]" 3 NoParams "[1, 2, 1]" 1, OF h]
  obtain r_norm r_raw where
      "calc_win (\<lambda>M args. Inr [1, 2, 1]) 3 NoParams True 1 = Inr r_norm"
      "calc_win (\<lambda>M args. Inr [1, 2, 1]) 3 NoParams False 1 = Inr r_raw"
      "self_scale r_norm = self_scale r_raw" "self_nenbw r_norm = self_nenbw r_raw"
      "self_scale r_raw = Fin (3 / 4)" "self_nenbw r_raw = Fin (9 / 8)"
    by auto
  then show ?thesis by auto
qed

text \<open>
  C6 (as stated, refuted). The window \<open>[0, 0]\<close> (what scipy's \<open>bartlett\<close> and \<open>hann\<close> return
  for two points) sums to zero. \<open>calc_win\<close> raises nothing on it: it returns with
  \<open>self.scale = inf\<close> and \<open>self.nenbw = nan\<close>.
\<close>

theorem calc_win_zero_sum_counterexample:
  "(case calc_win (\<lambda>M args. Inr [0, 0]) 2 NoParams False 1 of
      Inl e \<Rightarrow> None
    | Inr r \<Rightarrow> Some (self_scale r, self_nenbw r)) = Some (PInf, NaN)"
proof -
  have h: "(\<lambda>M args. Inr [0, 0]) (2::nat) (win_args NoParams) = (Inr [0, 0] :: error + real list)"
    by simp
  show ?thesis
    by (simp add: calc_win_Inr[where win_fnct = "\<lambda>M args. Inr [0, 0]" and w = "[0, 0]", OF h])
qed

text \<open>
  C6 (amended). For every window sample sequence whose sum is zero (length \<open>N \<ge> 1\<close>,
  nonzero sample rate) \<open>calc_win\<close> raises no error at the two divisions and returns:
  the coherent gain \<open>self.scale\<close> is \<open>inf\<close>, and \<open>self.nenbw\<close> is \<open>nan\<close> when every sample is
  zero and \<open>inf\<close> otherwise.
\<close>

theorem calc_win_zero_sum:
  assumes "win_fnct N (win_args params) = Inr w" and "0 < N" and "f_S \<noteq> 0"
    and "sum_list w = 0"
  shows "\<exists>r. calc_win win_fnct N params chk_norm_f f_S = Inr r
    \<and> self_scale r = PInf
    \<and> self_nenbw r = (if list_all (\<lambda>x. x = 0) w then NaN else PInf)"
proof -
  have nn: "0 \<le> (\<Sum>x\<leftarrow>w. x\<^sup>2)" by (rule sum_list_nonneg) auto
  have sc: "np_div (Fin (real N)) (Fin 0) = PInf"
    using assms(2) by simp
  have ne: "np_div (Fin (real N * (\<Sum>x\<leftarrow>w. x\<^sup>2))) (Fin 0)
              = (if list_all (\<lambda>x. x = 0) w then NaN else PInf)"
  proof (cases "list_all (\<lambda>x. x = 0) w")
    case True
    then have "(\<Sum>x\<leftarrow>w. x\<^sup>2) = 0" by (simp only: sum_squares_zero_iff)
    with True show ?thesis by simp
  next
    case False
    then have "(\<Sum>x\<leftarrow>w. x\<^sup>2) \<noteq> 0" by (simp only: sum_squares_zero_iff not_False_eq_True)
    with nn have "0 < (\<Sum>x\<leftarrow>w. x\<^sup>2)" by linarith
    with assms(2) have "0 < real N * (\<Sum>x\<leftarrow>w. x\<^sup>2)" by simp
    with False show ?thesis by simp
  qed
  show ?thesis
    unfolding calc_win_Inr[where win_fnct = win_fnct and w = w, OF assms(1-3)] assms(4)
    using sc ne by simp
qed

theorem calc_win_zero_sum_witness:
  "(\<lambda>M args. Inr [1, - 1]) (2::nat) (win_args NoParams) = (Inr [1, - 1] :: error + real list)
   \<and> (0::nat) < 2 \<and> (1::real) \<noteq> 0 \<and> sum_list [1, - 1 :: real] = 0
   \<and> (\<exists>r. calc_win (\<lambda>M args. Inr [1, - 1]) 2 NoParams True 1 = Inr r
          \<and> self_scale r = PInf \<and> self_nenbw r = PInf)"
proof -
  have h: "(\<lambda>M args. Inr [1, - 1]) (2::nat) (win_args NoParams) = (Inr [1, - 1] :: error + real list)"
    by simp
  from calc_win_zero_sum [of "\<lambda>M args. Inr [1, - 1]" 2 NoParams "[1, - 1]" 1 True, OF h]
  show ?thesis by simp
qed

text \<open>
  C7. For the rectangular window \<open>boxcar\<close> of any length \<open>N \<ge> 1\<close>, without shape parameters
  and without normalisation (and a nonzero sample rate), \<open>calc_win\<close> returns
  \<open>self.scale = 1.0\<close> and \<open>self.nenbw = 1.0\<close>; the witness is the length 64.
\<close>

theorem calc_win_boxcar:
  assumes "0 < N" and "f_S \<noteq> 0"
  shows "\<exists>r. calc_win boxcar N NoParams False f_S = Inr r
    \<and> self_win r = replicate N (Fin 1)
    \<and> self_scale r = Fin 1
    \<and> self_nenbw r = Fin 1"
proof -
  have b: "boxcar N (win_args NoParams) = Inr (replicate N 1)"
    by (simp add: boxcar_def)
  have s: "sum_list (replicate N (1::real)) = real N"
    by (simp add: sum_list_replicate)
  have q: "(\<Sum>x\<leftarrow>replicate N (1::real). x\<^sup>2) = real N"
    by (simp add: sum_list_replicate)
  show ?thesis
    unfolding calc_win_Inr[where win_fnct = boxcar and w = "replicate N 1", OF b assms] s q
    using assms(1)
    by (simp add: power2_eq_square)
qed

theorem calc_win_boxcar_witness:
  "(0::nat) < 64 \<and> (1::real) \<noteq> 0
   \<and> (\<exists>r. calc_win boxcar 64 NoParams False 1 = Inr r
          \<and> self_scale r = Fin 1 \<and> self_nenbw r = Fin 1)"
  using calc_win_boxcar [of 64 1] by auto

subsection \<open>Lengths, frequencies and spectrum\<close>









section \<open>Properties of \<open>draw_impz\<close> and \<open>update_view\<close>\<close>

text \<open>
  C9. For every response \<open>h\<close>, \<open>self.cmplx\<close> is true exactly when some element of \<open>h\<close> has a
  nonzero imaginary part: it is decided on the values of \<open>h\<close> alone. When it is true, the
  series \<open>h\<close> and \<open>h_i\<close> are the real and the imaginary parts of \<open>h\<close>, element by element;
  when it is false there is no \<open>h_i\<close>.
\<close>

theorem draw_impz_cmplx:
  "fst (split_cmplx h) = (\<exists>z\<in>set h. Im z \<noteq> 0)
   \<and> (fst (split_cmplx h) \<longrightarrow> split_cmplx h = (True, map Re h, Some (map Im h)))
   \<and> (\<not> fst (split_cmplx h) \<longrightarrow> split_cmplx h = (False, map Re h, None))
   \<and> cmplx (draw_impz h chkLog ledLogBottom) = fst (split_cmplx h)
   \<and> (cmplx (draw_impz h False ledLogBottom) \<longrightarrow>
        h_plot (draw_impz h False ledLogBottom) = map (\<lambda>z. Fin (Re z)) h
      \<and> h_i_plot (draw_impz h False ledLogBottom) = Some (map (\<lambda>z. Fin (Im z)) h))"
  by (simp add: split_cmplx_def draw_impz_def Let_def list_ex_iff np_iscomplex_def comp_def)

theorem draw_impz_cmplx_witness:
  "fst (split_cmplx [1, Complex 0 (- 1)])
   \<and> split_cmplx [1, Complex 0 (- 1)] = (True, [1, 0], Some [0, - 1])
   \<and> \<not> fst (split_cmplx [1, 2])
   \<and> split_cmplx [1, 2] = (False, [1, 2], None)
   \<and> cmplx (draw_impz [1, Complex 0 (- 1)] False 0)
   \<and> h_plot (draw_impz [1, Complex 0 (- 1)] False 0) = [Fin 1, Fin 0]
   \<and> h_i_plot (draw_impz [1, Complex 0 (- 1)] False 0) = Some [Fin 0, Fin (- 1)]"
  using draw_impz_cmplx [of "[1, Complex 0 (- 1)]" False 0] draw_impz_cmplx [of "[1, 2]" False 0]
  by simp

text \<open>
  C5 (as stated, refuted). In logarithmic mode \<open>draw_impz\<close> maps the element 1 to exactly 0
  with the floor -80, which \<open>max(20 log10(|1| + eps), -80)\<close> is for no guard \<open>eps > 0\<close>; and
  \<open>update_view\<close>, which takes no absolute value, maps the two negative samples of the
  window \<open>[-0.1, 1, -0.1]\<close> to \<open>nan\<close>.
\<close>

theorem log_display_counterexample:
  "h_plot (draw_impz [1] True (- 80)) = [Fin 0]
   \<and> \<not> (\<exists>eps>0. map Fin (to_display_spec eps [1] True (- 80)) = [Fin 0])
   \<and> (case calc_win (\<lambda>M args. Inr [- (1 / 10), 1, - (1 / 10)]) 3 NoParams False 1 of
         Inl e \<Rightarrow> None
       | Inr r \<Rightarrow> Some (fst (update_view r True (- 60) False (- 80))))
       = Some [NaN, Fin 0, NaN]"
proof -
  have a: "h_plot (draw_impz [1] True (- 80)) = [Fin 0]"
    by (simp add: draw_impz_def split_cmplx_def np_iscomplex_def log_bottom_def)
  have b: "\<not> (\<exists>eps>0. map Fin (to_display_spec eps [1] True (- 80)) = [Fin 0])"
  proof
    assume "\<exists>eps>0. map Fin (to_display_spec eps [1] True (- 80)) = [Fin 0]"
    then obtain eps :: real where e: "0 < eps"
        and m: "max (20 * log 10 (1 + eps)) (- 80) = 0"
      by (auto simp add: to_display_spec_def)
    from e have "0 < log 10 (1 + eps)" by simp
    with m show False by simp
  qed
  have w: "(\<lambda>M args. Inr [- (1 / 10), 1, - (1 / 10)]) (3::nat) (win_args NoParams)
             = (Inr [- (1 / 10), 1, - (1 / 10)] :: error + real list)"
    by simp
  have c: "(case calc_win (\<lambda>M args. Inr [- (1 / 10), 1, - (1 / 10)]) 3 NoParams False 1 of
         Inl e \<Rightarrow> None
       | Inr r \<Rightarrow> Some (fst (update_view r True (- 60) False (- 80))))
       = Some [NaN, Fin 0, NaN]"
    by (simp add: calc_win_Inr[where win_fnct = "\<lambda>M args. Inr [- (1 / 10), 1, - (1 / 10)]"
          and w = "[- (1 / 10), 1, - (1 / 10)]", OF w] update_view_def log_bottom_def)
  from a b c show ?thesis by blast
qed

text \<open>
  C5 (amended). In logarithmic mode every element \<open>v\<close> becomes \<open>max(20 log10(|v|), floor)\<close>
  with no guard added: at \<open>v = 0\<close> the logarithm is \<open>-inf\<close> and the maximum returns the floor,
  so the result is never \<open>-inf\<close> or \<open>nan\<close>. \<open>draw_impz\<close> computes this for every real and
  imaginary part; \<open>update_view\<close> computes it, without the absolute value, for every sample
  and every spectrum value that is not negative. In linear mode the series are returned
  as they are.
\<close>

theorem log_display_no_guard:
  "h_plot (draw_impz h True b)
      = map (\<lambda>z. Fin (if Re z = 0 then b else max (20 * log 10 \<bar>Re z\<bar>) b)) h
   \<and> h_i_plot (draw_impz h True b)
      = (if list_ex np_iscomplex h
         then Some (map (\<lambda>z. Fin (if Im z = 0 then b else max (20 * log 10 \<bar>Im z\<bar>) b)) h)
         else None)
   \<and> h_plot (draw_impz h False b) = map (\<lambda>z. Fin (Re z)) h
   \<and> h_i_plot (draw_impz h False b)
      = (if list_ex np_iscomplex h then Some (map (\<lambda>z. Fin (Im z)) h) else None)
   \<and> (self_win self = map Fin w \<and> list_all (\<lambda>x. 0 \<le> x) w \<longrightarrow>
        fst (update_view self True bottom_t chk_log_f bottom_f)
          = map (\<lambda>x. Fin (if x = 0 then bottom_t else max (20 * log 10 x) bottom_t)) w)
   \<and> (self_Win self = map Fin W \<and> list_all (\<lambda>x. 0 \<le> x) W \<longrightarrow>
        snd (update_view self chk_log_t bottom_t True bottom_f)
          = map (\<lambda>x. Fin (if x = 0 then bottom_f else max (20 * log 10 x) bottom_f)) W)
   \<and> fst (update_view self False bottom_t chk_log_f bottom_f) = self_win self
   \<and> snd (update_view self chk_log_t bottom_t False bottom_f) = self_Win self"
proof -
  have a: "h_plot (draw_impz h True b)
      = map (\<lambda>z. Fin (if Re z = 0 then b else max (20 * log 10 \<bar>Re z\<bar>) b)) h"
    by (simp add: draw_impz_def split_cmplx_def Let_def log_bottom_abs comp_def)
  have a': "h_plot (draw_impz h False b) = map (\<lambda>z. Fin (Re z)) h"
    by (simp add: draw_impz_def split_cmplx_def Let_def comp_def)
  have a_i: "h_i_plot (draw_impz h True b)
      = (if list_ex np_iscomplex h
         then Some (map (\<lambda>z. Fin (if Im z = 0 then b else max (20 * log 10 \<bar>Im z\<bar>) b)) h)
         else None)"
    by (simp add: draw_impz_def split_cmplx_def Let_def log_bottom_abs comp_def)
  have a_i': "h_i_plot (draw_impz h False b)
      = (if list_ex np_iscomplex h then Some (map (\<lambda>z. Fin (Im z)) h) else None)"
    by (simp add: draw_impz_def split_cmplx_def Let_def comp_def)
  have m: "list_all (\<lambda>x. 0 \<le> x) xs \<Longrightarrow>
      map (\<lambda>x. log_bottom x c) (map Fin xs)
        = map (\<lambda>x. Fin (if x = 0 then c else max (20 * log 10 x) c)) xs" for xs c
    by (induction xs) (simp_all add: log_bottom_nonneg)
  have t: "self_win self = map Fin w \<and> list_all (\<lambda>x. 0 \<le> x) w \<longrightarrow>
        fst (update_view self True bottom_t chk_log_f bottom_f)
          = map (\<lambda>x. Fin (if x = 0 then bottom_t else max (20 * log 10 x) bottom_t)) w"
  proof
    assume h: "self_win self = map Fin w \<and> list_all (\<lambda>x. 0 \<le> x) w"
    then have "fst (update_view self True bottom_t chk_log_f bottom_f)
        = map (\<lambda>x. log_bottom x bottom_t) (map Fin w)"
      by (simp only: update_view_def fst_conv if_True)
    with h show "fst (update_view self True bottom_t chk_log_f bottom_f)
          = map (\<lambda>x. Fin (if x = 0 then bottom_t else max (20 * log 10 x) bottom_t)) w"
      by (simp only: m)
  qed
  have f: "self_Win self = map Fin W \<and> list_all (\<lambda>x. 0 \<le> x) W \<longrightarrow>
        snd (update_view self chk_log_t bottom_t True bottom_f)
          = map (\<lambda>x. Fin (if x = 0 then bottom_f else max (20 * log 10 x) bottom_f)) W"
  proof
    assume h: "self_Win self = map Fin W \<and> list_all (\<lambda>x. 0 \<le> x) W"
    then have "snd (update_view self chk_log_t bottom_t True bottom_f)
        = map (\<lambda>x. log_bottom x bottom_f) (map Fin W)"
      by (simp only: update_view_def snd_conv if_True)
    with h show "snd (update_view self chk_log_t bottom_t True bottom_f)
          = map (\<lambda>x. Fin (if x = 0 then bottom_f else max (20 * log 10 x) bottom_f)) W"
      by (simp only: m)
  qed
  have i: "fst (update_view self False bottom_t chk_log_f bottom_f) = self_win self"
    "snd (update_view self chk_log_t bottom_t False bottom_f) = self_Win self"
    by (simp_all add: update_view_def)
  from a a' a_i a_i' t f i show ?thesis by blast
qed

theorem log_display_no_guard_witness:
  "h_plot (draw_impz [0, 1, - 10] True (- 80)) = [Fin (- 80), Fin 0, Fin 20]
   \<and> self_win \<lparr>self_N = 2, self_t = [0, 1], self_win = [Fin 0, Fin 10], self_nenbw = Fin 1,
                self_scale = Fin 1, self_F = [], self_Win = []\<rparr> = map Fin [0, 10]
   \<and> list_all (\<lambda>x. 0 \<le> x) [0, 10 :: real]
   \<and> fst (update_view \<lparr>self_N = 2, self_t = [0, 1], self_win = [Fin 0, Fin 10], self_nenbw = Fin 1,
                self_scale = Fin 1, self_F = [], self_Win = []\<rparr> True (- 60) False (- 80))
        = [Fin (- 60), Fin 20]"
  using log_display_no_guard [where h = "[0, 1, - 10]" and b = "- 80"
      and self = "\<lparr>self_N = 2, self_t = [0, 1], self_win = [Fin 0, Fin 10], self_nenbw = Fin 1,
                self_scale = Fin 1, self_F = [], self_Win = []\<rparr>"
      and w = "[0, 10]" and bottom_t = "- 60" and chk_log_f = False and bottom_f = "- 80"
      and W = "[]" and chk_log_t = False]
  by simp

end
